theory Spec2Isabelle
  imports Complex_Main "HOL-Library.AList"
begin

section \<open>Errors and Python values\<close>

text \<open>
  Every exception the modelled code can raise is a value of \<open>error\<close>; a fallible
  computation returns \<open>error + 'a\<close> with \<open>Inl\<close> for the raise.
  \<open>TypeError\<close> is what Python raises for a call that does not fit the signature of the
  function called. \<open>TensorError\<close> stands for whatever \<open>torch.LongTensor\<close> raises on data
  it cannot pack, \<open>DGLError\<close> for the graph library's own checks.
  \<open>ConfigurationError\<close> belongs to the taxonomy of the spec; nothing in the code raises it.
\<close>

datatype error =
    KeyError string
  | IndexError
  | TypeError
  | TensorError
  | DGLError
  | InvalidConfigError
  | ModelInvocationError
  | ConfigurationError

definition bind_err :: "error + 'a \<Rightarrow> ('a \<Rightarrow> error + 'b) \<Rightarrow> error + 'b" where
  "bind_err m f = (case m of Inl e \<Rightarrow> Inl e | Inr x \<Rightarrow> f x)"

text \<open>Python's \<open>d[k]\<close> on a dict and \<open>xs[i]\<close> on a list (non-negative index).\<close>

definition lookup :: "(string \<rightharpoonup> 'v) \<Rightarrow> string \<Rightarrow> error + 'v" where
  "lookup d k = (case d k of None \<Rightarrow> Inl (KeyError k) | Some v \<Rightarrow> Inr v)"

definition py_index :: "'a list \<Rightarrow> nat \<Rightarrow> error + 'a" where
  "py_index xs i = (if i < length xs then Inr (xs ! i) else Inl IndexError)"

text \<open>
  A Python number is an \<open>int\<close> or a \<open>float\<close>; a float is taken by its value. An
  object is a dict from attribute names to values. An attribute value is a number (a
  label) or a list of numbers (a centroid).
\<close>

datatype num = PyInt int | PyFloat real

datatype attr = Scalar num | Vector "num list"

type_synonym obj = "string \<rightharpoonup> attr"

text \<open>
  Modelled from the spec: the module \<open>histocartography.graph_building.constants\<close> is
  absent; the spec names the node attributes \<open>centroid\<close> and \<open>label\<close>.
\<close>

definition CENTROID :: string where
  "CENTROID = ''centroid''"

definition LABEL :: string where
  "LABEL = ''label''"

section \<open>Tensors of 64-bit integers\<close>

text \<open>
  \<open>torch.LongTensor\<close> packs a list of numbers into a vector and a list of equally
  long lists of numbers into a matrix. Every entry becomes a signed 64-bit integer: an
  \<open>int\<close> is stored as it is, a \<open>float\<close> is truncated toward zero, and a value outside the
  64-bit range raises. A list that mixes numbers and lists, or lists of different
  lengths, raises too.
\<close>

datatype tensor = Tensor1 "int list" | Tensor2 "int list list"

fun truncated :: "num \<Rightarrow> int" where
  "truncated (PyInt x) = x"
| "truncated (PyFloat r) = (if 0 \<le> r then \<lfloor>r\<rfloor> else \<lceil>r\<rceil>)"

definition in_long :: "int \<Rightarrow> bool" where
  "in_long x \<longleftrightarrow> - (2 ^ 63) \<le> x \<and> x < 2 ^ 63"

definition pack :: "num \<Rightarrow> int option" where
  "pack n = (if in_long (truncated n) then Some (truncated n) else None)"

fun pack_all :: "num list \<Rightarrow> int list option" where
  "pack_all [] = Some []"
| "pack_all (n # ns) =
     (case pack n of None \<Rightarrow> None | Some x \<Rightarrow> map_option ((#) x) (pack_all ns))"

fun scalars :: "attr list \<Rightarrow> int list option" where
  "scalars [] = Some []"
| "scalars (Scalar n # as) =
     (case pack n of None \<Rightarrow> None | Some x \<Rightarrow> map_option ((#) x) (scalars as))"
| "scalars (Vector v # as) = None"

fun vectors :: "nat \<Rightarrow> attr list \<Rightarrow> int list list option" where
  "vectors k [] = Some []"
| "vectors k (Vector v # as) =
     (if length v = k
      then (case pack_all v of None \<Rightarrow> None | Some xs \<Rightarrow> map_option ((#) xs) (vectors k as))
      else None)"
| "vectors k (Scalar n # as) = None"

fun LongTensor :: "attr list \<Rightarrow> error + tensor" where
  "LongTensor [] = Inr (Tensor1 [])"
| "LongTensor (Scalar n # as) =
     (case scalars (Scalar n # as) of
        None \<Rightarrow> Inl TensorError
      | Some xs \<Rightarrow> Inr (Tensor1 xs))"
| "LongTensor (Vector v # as) =
     (case vectors (length v) (Vector v # as) of
        None \<Rightarrow> Inl TensorError
      | Some vs \<Rightarrow> Inr (Tensor2 vs))"

fun tensor_len :: "tensor \<Rightarrow> nat" where
  "tensor_len (Tensor1 xs) = length xs"
| "tensor_len (Tensor2 vs) = length vs"

text \<open>Row \<open>i\<close> of a tensor, read back as an attribute value; \<open>None\<close> out of range.\<close>

fun tensor_row :: "tensor \<Rightarrow> nat \<Rightarrow> attr option" where
  "tensor_row (Tensor1 xs) i =
     (if i < length xs then Some (Scalar (PyInt (xs ! i))) else None)"
| "tensor_row (Tensor2 vs) i =
     (if i < length vs then Some (Vector (map PyInt (vs ! i))) else None)"

section \<open>The graph\<close>

text \<open>
  A \<open>dgl.DGLGraph\<close>: nodes \<open>0..<num_nodes\<close>, node data as named tensors with one
  row per node, and the directed edges in the order they were added.
  Setting node data checks the row count.
\<close>

record graph =
  num_nodes :: nat
  ndata :: "string \<rightharpoonup> tensor"
  edges :: "(nat \<times> nat) list"

definition DGLGraph :: graph where
  "DGLGraph = \<lparr>num_nodes = 0, ndata = Map.empty, edges = []\<rparr>"

definition add_nodes :: "nat \<Rightarrow> graph \<Rightarrow> graph" where
  "add_nodes n g = g\<lparr>num_nodes := num_nodes g + n\<rparr>"

definition set_ndata :: "string \<Rightarrow> tensor \<Rightarrow> graph \<Rightarrow> error + graph" where
  "set_ndata k t g =
     (if tensor_len t = num_nodes g then Inr (g\<lparr>ndata := (ndata g)(k \<mapsto> t)\<rparr>)
      else Inl DGLError)"

text \<open>
  The method \<open>DGLGraph.add_edges(u, v, data=None)\<close> takes the source nodes and the
  destination nodes of the new edges, and both are required. What a call passes for
  them is a list of node ids or, as the builder does, a list of pairs; a call that
  passes no second positional argument raises \<open>TypeError\<close> before the method looks
  at the first. The optional \<open>data\<close> is never passed and is left out.
\<close>

datatype edge_arg = Ids "nat list" | Pairs "(nat \<times> nat) list"

fun add_edges :: "edge_arg \<Rightarrow> edge_arg option \<Rightarrow> graph \<Rightarrow> error + graph" where
  "add_edges u None g = Inl TypeError"
| "add_edges (Ids u) (Some (Ids v)) g =
     (if length u = length v \<and> list_all (\<lambda>x. x < num_nodes g) (u @ v)
      then Inr (g\<lparr>edges := edges g @ zip u v\<rparr>)
      else Inl DGLError)"
| "add_edges u (Some v) g = Inl DGLError"

section \<open>The k-NN graph builder\<close>

text \<open>
  The configuration is a dict; the values read by the builder are a number (the edge
  threshold) and a flag (the edge encoding). Python compares a number with a flag as
  with 0 or 1, and takes a number for true when it is not zero.
\<close>

datatype 'w cfg_value = CNum 'w | CBool bool

type_synonym 'w config = "string \<rightharpoonup> 'w cfg_value"

fun num_of :: "'w::{zero,one} cfg_value \<Rightarrow> 'w" where
  "num_of (CNum t) = t"
| "num_of (CBool b) = (if b then 1 else 0)"

fun truthy :: "'w::{zero,one} cfg_value \<Rightarrow> bool" where
  "truthy (CNum t) = (t \<noteq> 0)"
| "truthy (CBool b) = b"

record 'w builder =
  config :: "'w config"
  cuda :: bool

text \<open>The constructor stores its arguments; \<open>verbose\<close> only prints.\<close>

definition KNNGraphBuilder_init :: "'w config \<Rightarrow> bool \<Rightarrow> bool \<Rightarrow> 'w builder" where
  "KNNGraphBuilder_init cfg cu verbose = \<lparr>config = cfg, cuda = cu\<rparr>"

text \<open>The comprehension \<open>[obj[k] for obj in objects]\<close>.\<close>

fun attrs_of :: "string \<Rightarrow> obj list \<Rightarrow> error + attr list" where
  "attrs_of k [] = Inr []"
| "attrs_of k (ob # objects) =
     bind_err (lookup ob k) (\<lambda>a.
     bind_err (attrs_of k objects) (\<lambda>as. Inr (a # as)))"

definition set_node_features :: "obj list \<Rightarrow> graph \<Rightarrow> error + graph" where
  "set_node_features objects g =
     bind_err (attrs_of CENTROID objects) (\<lambda>cs.
     bind_err (LongTensor cs) (\<lambda>tc.
     bind_err (set_ndata CENTROID tc g) (\<lambda>g1.
     bind_err (attrs_of LABEL objects) (\<lambda>ls.
     bind_err (LongTensor ls) (\<lambda>tl.
     set_ndata LABEL tl g1)))))"

text \<open>The body of \<open>_set_edge_embeddings\<close> is its docstring only.\<close>

definition set_edge_embeddings :: "obj list \<Rightarrow> graph \<Rightarrow> graph" where
  "set_edge_embeddings objects g = g"

text \<open>\<open>itertools.combinations(range(n), 2)\<close>: the pairs \<open>i < j\<close> in lexicographic order.\<close>

definition combinations2 :: "nat \<Rightarrow> (nat \<times> nat) list" where
  "combinations2 n = concat (map (\<lambda>i. map (\<lambda>j. (i, j)) [Suc i..<n]) [0..<n])"

text \<open>
  The loop of \<open>_build_topology\<close> over the remaining pairs, with the edge list built so
  far. The numeric utilities \<open>compute_l2_distance\<close> and \<open>compute_edge_weight\<close> of
  \<open>histocartography.utils.vector\<close> are absent and taken as the parameters \<open>l2\<close> and
  \<open>ew\<close>; nothing is assumed of them. The threshold is looked up anew for every pair.
\<close>

fun topology_loop ::
  "(attr \<Rightarrow> attr \<Rightarrow> 'd) \<Rightarrow> ('d \<Rightarrow> 'w) \<Rightarrow> ('w::{ord,zero,one}) builder \<Rightarrow> attr list \<Rightarrow>
   (nat \<times> nat) list \<Rightarrow> (nat \<times> nat) list \<Rightarrow> error + (nat \<times> nat) list" where
  "topology_loop l2 ew self centroid [] edge_list = Inr edge_list"
| "topology_loop l2 ew self centroid (pair # pairs) edge_list =
     bind_err (py_index centroid (fst pair)) (\<lambda>c0.
     bind_err (py_index centroid (snd pair)) (\<lambda>c1.
       let dist = l2 c0 c1;
           edge_weight = ew dist
       in bind_err (lookup (config self) ''edge_threshold'') (\<lambda>thr.
            if num_of thr < edge_weight
            then topology_loop l2 ew self centroid pairs
                   (edge_list @ [pair, (snd pair, fst pair)])
            else topology_loop l2 ew self centroid pairs edge_list)))"

text \<open>
  Lines 68 to 76 of \<open>_build_topology\<close>: the value of \<open>edge_list\<close> when the loop is
  done and line 77 is reached.
\<close>

definition topology_edge_list ::
  "(attr \<Rightarrow> attr \<Rightarrow> 'd) \<Rightarrow> ('d \<Rightarrow> 'w) \<Rightarrow> ('w::{ord,zero,one}) builder \<Rightarrow> obj list \<Rightarrow>
   error + (nat \<times> nat) list" where
  "topology_edge_list l2 ew self objects =
     (let num_objects = length objects
      in bind_err (attrs_of CENTROID objects) (\<lambda>centroid.
           topology_loop l2 ew self centroid (combinations2 num_objects) []))"

text \<open>
  \<open>_build_topology\<close>: line 77 is \<open>graph.add_edges(edge_list)\<close>, a call with the list
  of pairs as its one argument.
\<close>

definition build_topology ::
  "(attr \<Rightarrow> attr \<Rightarrow> 'd) \<Rightarrow> ('d \<Rightarrow> 'w) \<Rightarrow> ('w::{ord,zero,one}) builder \<Rightarrow> obj list \<Rightarrow>
   graph \<Rightarrow> error + graph" where
  "build_topology l2 ew self objects g =
     bind_err (topology_edge_list l2 ew self objects)
       (\<lambda>edge_list. add_edges (Pairs edge_list) None g)"

text \<open>
  \<open>__call__\<close>: the result and the builder after the call (the method has the
  builder at hand as \<open>self\<close>).
\<close>

definition KNNGraphBuilder_call ::
  "(attr \<Rightarrow> attr \<Rightarrow> 'd) \<Rightarrow> ('d \<Rightarrow> 'w) \<Rightarrow> ('w::{ord,zero,one}) builder \<Rightarrow> obj list \<Rightarrow>
   int list \<Rightarrow> (error + graph) \<times> 'w builder" where
  "KNNGraphBuilder_call l2 ew self objects image_size =
     (let num_objects = length objects;
          g0 = add_nodes num_objects DGLGraph
      in (bind_err (set_node_features objects g0) (\<lambda>g1.
          bind_err (build_topology l2 ew self objects g1) (\<lambda>g2.
          bind_err (lookup (config self) ''edge_encoding'') (\<lambda>enc.
            Inr (if truthy enc then set_edge_embeddings objects g2 else g2)))),
          self))"


fun packed :: "attr \<Rightarrow> attr" where
  "packed (Scalar n) = Scalar (PyInt (truncated n))"
| "packed (Vector v) = Vector (map (\<lambda>n. PyInt (truncated n)) v)"



fun fits_long :: "attr \<Rightarrow> bool" where
  "fits_long (Scalar n) = (pack n \<noteq> None)"
| "fits_long (Vector v) = (pack_all v \<noteq> None)"

definition well_formed :: "obj \<Rightarrow> bool" where
  "well_formed ob \<longleftrightarrow>
     (case ob CENTROID of None \<Rightarrow> False | Some c \<Rightarrow> fits_long c) \<and>
     (case ob LABEL of None \<Rightarrow> False | Some l \<Rightarrow> fits_long l)"

definition exceeds ::
  "(attr \<Rightarrow> attr \<Rightarrow> 'd) \<Rightarrow> ('d \<Rightarrow> 'w) \<Rightarrow> ('w::{ord,zero,one}) builder \<Rightarrow> attr list \<Rightarrow>
   nat \<times> nat \<Rightarrow> bool" where
  "exceeds l2 ew self centroid pair =
     (case config self ''edge_threshold'' of
        None \<Rightarrow> False
      | Some thr \<Rightarrow> num_of thr < ew (l2 (centroid ! fst pair) (centroid ! snd pair)))"

section \<open>The explainer's mask optimization\<close>

text \<open>
  \<open>main\<close> of \<open>run_explainer.py\<close> collects the training parameters from the command
  line; the weight decay is the constant \<open>5e-4\<close>.
\<close>

record train_params =
  num_epochs :: int
  lr :: real
  weight_decay :: real

definition make_train_params :: "int \<Rightarrow> real \<Rightarrow> train_params" where
  "make_train_params epochs learning_rate =
     \<lparr>num_epochs = epochs, lr = learning_rate, weight_decay = 5 / 10000\<rparr>"

text \<open>
  The class \<open>SingleInstanceExplainer\<close> of
  \<open>histocartography.interpretability.single_instance_explainer\<close> is absent; its
  \<open>explain\<close> is written here from section 4.2 of the spec. The model (\<open>forward\<close>,
  which may raise \<open>ModelInvocationError\<close>), the masking (\<open>apply_mask\<close>: squash the
  mask and multiply it into the graph) and the gradient step (\<open>update\<close>) are
  parameters. The state of the optimization is the mask and the number of passes
  through the loop body so far.
\<close>

record 'm opt_state =
  mask :: 'm
  iterations :: nat

text \<open>
  Modelled from the spec: one iteration of the absent \<open>explain\<close> (4.2, step 3):
  apply the mask, run the frozen model on the masked graph, and update the mask from
  the loss between the masked and the original prediction. A forward pass that raises
  is propagated.
\<close>

definition epoch_step ::
  "('g \<Rightarrow> error + 'p) \<Rightarrow> ('m \<Rightarrow> 'g \<Rightarrow> 'g) \<Rightarrow> (train_params \<Rightarrow> 'm \<Rightarrow> 'p \<Rightarrow> 'p \<Rightarrow> 'm) \<Rightarrow>
   train_params \<Rightarrow> 'g \<Rightarrow> 'p \<Rightarrow> 'm opt_state \<Rightarrow> error + 'm opt_state" where
  "epoch_step forward apply_mask update tp g original_prediction s =
     bind_err (forward (apply_mask (mask s) g)) (\<lambda>masked_prediction.
       Inr \<lparr>mask = update tp (mask s) masked_prediction original_prediction,
            iterations = Suc (iterations s)\<rparr>)"

text \<open>Modelled from the spec: the loop of the absent \<open>explain\<close>, \<open>k\<close> iterations.\<close>

fun optimize_mask ::
  "('g \<Rightarrow> error + 'p) \<Rightarrow> ('m \<Rightarrow> 'g \<Rightarrow> 'g) \<Rightarrow> (train_params \<Rightarrow> 'm \<Rightarrow> 'p \<Rightarrow> 'p \<Rightarrow> 'm) \<Rightarrow>
   train_params \<Rightarrow> 'g \<Rightarrow> 'p \<Rightarrow> nat \<Rightarrow> 'm opt_state \<Rightarrow> error + 'm opt_state" where
  "optimize_mask forward apply_mask update tp g original_prediction 0 s = Inr s"
| "optimize_mask forward apply_mask update tp g original_prediction (Suc k) s =
     bind_err (epoch_step forward apply_mask update tp g original_prediction s)
       (optimize_mask forward apply_mask update tp g original_prediction k)"

record ('g, 'p) explanation_result =
  masked_graph :: 'g
  original_prediction :: 'p
  explanation_prediction :: 'p
  epochs_run :: nat

text \<open>
  Modelled from the spec: the absent \<open>SingleInstanceExplainer.explain\<close> (4.2). It
  fails with \<open>InvalidConfigError\<close> if \<open>num_epochs <= 0\<close>; else it runs the model
  once on the unmasked graph, runs \<open>num_epochs\<close> iterations from the initial mask,
  applies the final mask and runs the model once more. \<open>epochs_run\<close> reports the
  number of iterations made.
\<close>

definition explain ::
  "('g \<Rightarrow> error + 'p) \<Rightarrow> ('m \<Rightarrow> 'g \<Rightarrow> 'g) \<Rightarrow> (train_params \<Rightarrow> 'm \<Rightarrow> 'p \<Rightarrow> 'p \<Rightarrow> 'm) \<Rightarrow>
   'm \<Rightarrow> train_params \<Rightarrow> 'g \<Rightarrow> error + ('g, 'p) explanation_result" where
  "explain forward apply_mask update mask_init tp g =
     (if num_epochs tp \<le> 0 then Inl InvalidConfigError
      else
        bind_err (forward g) (\<lambda>orig.
        bind_err (optimize_mask forward apply_mask update tp g orig (nat (num_epochs tp))
                    \<lparr>mask = mask_init, iterations = 0\<rparr>) (\<lambda>s.
        bind_err (forward (apply_mask (mask s) g)) (\<lambda>expl.
          Inr \<lparr>masked_graph = apply_mask (mask s) g,
               original_prediction = orig,
               explanation_prediction = expl,
               epochs_run = iterations s\<rparr>))))"

section \<open>Postprocessing of an explanation\<close>

text \<open>
  The tensors returned by the explainer are lists of rows: \<open>adj\<close> has a row of mask
  weights per node, \<open>feats\<close> a row of masked features per node. Indexing a dimension
  with a boolean mask keeps the positions where the mask is true and raises when the
  mask's length differs from the dimension's.
\<close>

fun select :: "bool list \<Rightarrow> 'a list \<Rightarrow> 'a list" where
  "select (b # bs) (x # xs) = (if b then x # select bs xs else select bs xs)"
| "select bs xs = []"

definition mask_rows :: "bool list \<Rightarrow> 'a list \<Rightarrow> error + 'a list" where
  "mask_rows m xs = (if length m = length xs then Inr (select m xs) else Inl IndexError)"

fun mask_cols :: "bool list \<Rightarrow> 'a list list \<Rightarrow> error + 'a list list" where
  "mask_cols m [] = Inr []"
| "mask_cols m (row # rows) =
     bind_err (mask_rows m row) (\<lambda>r.
     bind_err (mask_cols m rows) (\<lambda>rs. Inr (r # rs)))"

text \<open>
  \<open>(feats.sum(dim=-1) != 0.)\<close>: one flag per row, true when the row's sum is not
  zero. The sum is torch's sum of floating-point numbers, which rounds, in an order of
  its own; it is the parameter \<open>fsum\<close>, and the entries are of any type with a zero.
\<close>

definition nonzero_sum :: "('a list \<Rightarrow> 'a::zero) \<Rightarrow> 'a list list \<Rightarrow> bool list" where
  "nonzero_sum fsum feats = map (\<lambda>row. fsum row \<noteq> 0) feats"

record nx_graph =
  nx_nodes :: "nat list"
  nx_edges :: "(nat \<times> nat) list"

text \<open>
  Modelled from the spec: \<open>adj_to_networkx\<close> of \<open>histocartography.utils.graph\<close> is
  absent. The spec (3, Explanation Graph) has it build a graph of its own "with edges
  whose mask weight exceeds a configured threshold and nodes retaining nonzero feature
  rows": node \<open>i\<close> stands for row \<open>i\<close> of the tensors it is given.
\<close>

definition adj_to_networkx ::
  "('w::ord) list list \<Rightarrow> ('a::zero) list list \<Rightarrow> 'w \<Rightarrow> 'c list \<Rightarrow> nx_graph" where
  "adj_to_networkx adj feats threshold centroids =
     \<lparr>nx_nodes = filter (\<lambda>i. list_ex (\<lambda>x. x \<noteq> 0) (feats ! i)) [0..<length feats],
      nx_edges = filter (\<lambda>(i, j). j < length (adj ! i) \<and> threshold < adj ! i ! j)
                   (List.product [0..<length adj] [0..<length adj])\<rparr>"

text \<open>
  Lines 131 to 140 of \<open>main\<close>, for one explained instance. The two calls of
  \<open>squeeze\<close> leave a tensor with other than one row as it is; they are not modelled,
  and the statements below about \<open>postprocess\<close> are made for a number of nodes other
  than one.
\<close>

definition postprocess ::
  "('a list \<Rightarrow> 'a::zero) \<Rightarrow> ('w::ord) list list \<Rightarrow> 'a list list \<Rightarrow> 'c list \<Rightarrow> 'w \<Rightarrow>
   error + nx_graph" where
  "postprocess fsum adj feats centroids threshold =
     (let node_idx = nonzero_sum fsum feats
      in bind_err (mask_rows node_idx adj) (\<lambda>adj1.
         bind_err (mask_cols node_idx adj1) (\<lambda>adj2.
         bind_err (mask_rows node_idx feats) (\<lambda>feats1.
         bind_err (mask_rows node_idx centroids) (\<lambda>centroids1.
           Inr (adj_to_networkx adj2 feats1 threshold centroids1))))))"

text \<open>
  The original indices of the nodes that postprocessing keeps, and what the spec's
  sentence keeps: the nodes with a nonzero feature row and the pairs above the threshold.
\<close>

definition kept :: "('a list \<Rightarrow> 'a::zero) \<Rightarrow> 'a list list \<Rightarrow> nat list" where
  "kept fsum feats = filter (\<lambda>i. fsum (feats ! i) \<noteq> 0) [0..<length feats]"

definition spec_nodes :: "('a::zero) list list \<Rightarrow> nat list" where
  "spec_nodes feats = filter (\<lambda>i. list_ex (\<lambda>x. x \<noteq> 0) (feats ! i)) [0..<length feats]"

definition spec_edges :: "('w::ord) list list \<Rightarrow> 'w \<Rightarrow> (nat \<times> nat) list" where
  "spec_edges adj threshold =
     filter (\<lambda>(i, j). j < length (adj ! i) \<and> threshold < adj ! i ! j)
       (List.product [0..<length adj] [0..<length adj])"

section \<open>The metadata of an explanation\<close>

text \<open>
  A JSON value; an object is the list of its entries in insertion order, and
  \<open>d[k] = v\<close> on a dict is \<open>AList.update\<close>. The rendering
  \<open>str(list(np.around(p, 2)))\<close> of a prediction vector is the parameter \<open>render\<close>.
\<close>

datatype json =
    JInt int
  | JNum real
  | JStr string
  | JObj "(string \<times> json) list"

definition make_meta_data ::
  "(real list \<Rightarrow> string) \<Rightarrow> (string \<times> json) list \<Rightarrow> int \<Rightarrow> real \<Rightarrow> real list \<Rightarrow> real list \<Rightarrow>
   nat \<Rightarrow> nat \<Rightarrow> nat \<Rightarrow> nat \<Rightarrow> (string \<times> json) list" where
  "make_meta_data render explainer_config epochs learning_rate orig_pred exp_pred
     cell_nodes cell_edges expl_nodes expl_edges =
     (let config1 = AList.update ''number_of_epochs'' (JInt epochs) explainer_config;
          config2 = AList.update ''learning_rate'' (JNum learning_rate) config1;
          meta_data = AList.update ''config'' (JObj config2) [];
          original1 = AList.update ''prediction'' (JStr (render (orig_pred))) [];
          original2 = AList.update ''number_of_nodes'' (JInt (int cell_nodes)) original1;
          original3 = AList.update ''number_of_edges'' (JInt (int cell_edges)) original2;
          explanation1 = AList.update ''number_of_nodes'' (JInt (int expl_nodes)) [];
          explanation2 = AList.update ''number_of_edges'' (JInt (int expl_edges)) explanation1;
          explanation3 = AList.update ''explanation_prediction'' (JStr (render exp_pred))
                           explanation2;
          output = AList.update ''explanation'' (JObj explanation3)
                     (AList.update ''original'' (JObj original3) [])
      in AList.update ''output'' (JObj output) meta_data)"

section \<open>Sample inputs\<close>

text \<open>
  Five objects on a line at unit spacing, with the squared distance and its negation
  as weight: with the threshold \<open>-2\<close> only neighbours are connected. The same
  objects with other labels, and an object whose centroid is not made of whole numbers.
\<close>

fun num_value :: "num \<Rightarrow> real" where
  "num_value (PyInt x) = of_int x"
| "num_value (PyFloat r) = r"

fun sq_l2 :: "attr \<Rightarrow> attr \<Rightarrow> real" where
  "sq_l2 (Vector u) (Vector v) =
     sum_list (map (\<lambda>(a, b). (num_value a - num_value b) * (num_value a - num_value b)) (zip u v))"
| "sq_l2 a b = 0"

definition neg_weight :: "real \<Rightarrow> real" where
  "neg_weight d = - d"

definition line_object :: "int \<Rightarrow> obj" where
  "line_object x = [CENTROID \<mapsto> Vector [PyInt x, PyInt 0], LABEL \<mapsto> Scalar (PyInt (x + 7))]"

definition line_objects :: "obj list" where
  "line_objects = map line_object [0, 1, 2, 3, 4]"

definition plain_object :: "int \<Rightarrow> obj" where
  "plain_object x = [CENTROID \<mapsto> Vector [PyInt x, PyInt 0], LABEL \<mapsto> Scalar (PyInt 0)]"

definition plain_objects :: "obj list" where
  "plain_objects = map plain_object [0, 1, 2, 3, 4]"


definition line_builder :: "real builder" where
  "line_builder = KNNGraphBuilder_init
     [''edge_threshold'' \<mapsto> CNum (- 2), ''edge_encoding'' \<mapsto> CBool False] False False"

definition encoding_builder :: "real builder" where
  "encoding_builder = KNNGraphBuilder_init
     [''edge_threshold'' \<mapsto> CNum (- 2), ''edge_encoding'' \<mapsto> CBool True] True False"

definition no_threshold_builder :: "real builder" where
  "no_threshold_builder = KNNGraphBuilder_init [''edge_encoding'' \<mapsto> CBool False] False False"

definition line_edges :: "(nat \<times> nat) list" where
  "line_edges = [(0, 1), (1, 0), (1, 2), (2, 1), (2, 3), (3, 2), (3, 4), (4, 3)]"

text \<open>The graph of the five objects when their node features are set.\<close>

definition line_nodes :: graph where
  "line_nodes =
     \<lparr>num_nodes = 5,
      ndata = [CENTROID \<mapsto> Tensor2 [[0, 0], [1, 0], [2, 0], [3, 0], [4, 0]],
               LABEL \<mapsto> Tensor1 [7, 8, 9, 10, 11]],
      edges = []\<rparr>"

text \<open>A toy model for the explainer: the graph and the mask are vectors of weights.\<close>

definition toy_forward :: "real list \<Rightarrow> error + real" where
  "toy_forward g = Inr (sum_list g)"

definition toy_apply_mask :: "real list \<Rightarrow> real list \<Rightarrow> real list" where
  "toy_apply_mask m g = map (\<lambda>(a, b). a * b) (zip m g)"

definition toy_update :: "train_params \<Rightarrow> real list \<Rightarrow> real \<Rightarrow> real \<Rightarrow> real list" where
  "toy_update tp m p orig = map (\<lambda>x. x - lr tp * (p - orig)) m"


text \<open>
  The mask of the spec's example, \<open>{(0,1): 0.9, (1,2): 0.1}\<close> on three nodes, and a
  mask on two nodes of which the first has a feature row that sums to zero. The feature
  rows are made of small whole numbers, for which the floating-point sum is the exact
  sum of the row.
\<close>

definition whole_sum :: "real list \<Rightarrow> real" where
  "whole_sum row = sum_list row"

definition chain_adj :: "real list list" where
  "chain_adj = [[0, 9 / 10, 0], [0, 0, 1 / 10], [0, 0, 0]]"

definition chain_feats :: "real list list" where
  "chain_feats = [[1, 2], [0, 3], [- 1, 2]]"

definition chain_centroids :: "int list list" where
  "chain_centroids = [[0, 0], [1, 0], [2, 0]]"

definition cancel_adj :: "real list list" where
  "cancel_adj = [[0, 9 / 10], [9 / 10, 0]]"

definition cancel_feats :: "real list list" where
  "cancel_feats = [[1, - 1], [1, 1]]"

definition cancel_centroids :: "int list list" where
  "cancel_centroids = [[0, 0], [1, 0]]"

definition sample_config :: "(string \<times> json) list" where
  "sample_config = [(''adj_thresh'', JNum (1 / 2)), (''number_of_epochs'', JInt 1)]"

section \<open>Auxiliary facts\<close>

subsection \<open>Errors, lookups and tensors\<close>

lemma bind_err_simps [simp]:
  "bind_err (Inl e) f = Inl e"
  "bind_err (Inr x) f = f x"
  by (simp_all add: bind_err_def)

lemma bind_err_Inr_iff: "bind_err m f = Inr y \<longleftrightarrow> (\<exists>x. m = Inr x \<and> f x = Inr y)"
  by (cases m) simp_all

lemma lookup_Inr_iff: "lookup d k = Inr v \<longleftrightarrow> d k = Some v"
  by (simp add: lookup_def split: option.splits)

lemma attrs_of_Inr_iff: "attrs_of k objects = Inr as \<longleftrightarrow> map (\<lambda>ob. ob k) objects = map Some as"
proof (induction objects arbitrary: as)
  case Nil
  show ?case by auto
next
  case (Cons ob objects)
  show ?case
    by (cases as) (auto simp: bind_err_Inr_iff lookup_Inr_iff Cons.IH)
qed

lemma attrs_of_nth:
  assumes "attrs_of k objects = Inr as"
  shows "length as = length objects" and "i < length objects \<Longrightarrow> (objects ! i) k = Some (as ! i)"
proof -
  from assms have eq: "map (\<lambda>ob. ob k) objects = map Some as"
    by (simp add: attrs_of_Inr_iff)
  then show len: "length as = length objects"
    by (metis length_map)
  assume "i < length objects"
  with len have "map (\<lambda>ob. ob k) objects ! i = (objects ! i) k" "map Some as ! i = Some (as ! i)"
    by simp_all
  with eq show "(objects ! i) k = Some (as ! i)" by simp
qed

lemma attrs_of_cong:
  "map (\<lambda>ob. ob k) objects = map (\<lambda>ob. ob k) objects' \<Longrightarrow> attrs_of k objects = attrs_of k objects'"
proof (induction objects arbitrary: objects')
  case Nil
  then show ?case by simp
next
  case (Cons ob objects)
  then obtain ob' rest where "objects' = ob' # rest" by (cases objects') auto
  with Cons show ?case by (simp add: lookup_def)
qed

lemma pack_all_Some: "pack_all v = Some xs \<Longrightarrow> xs = map truncated v"
  by (induction v arbitrary: xs) (auto simp: pack_def split: option.splits if_splits)

lemma scalars_Some:
  "scalars as = Some xs \<Longrightarrow> map packed as = map (\<lambda>x. Scalar (PyInt x)) xs"
  by (induction as arbitrary: xs rule: scalars.induct)
    (auto simp: pack_def split: option.splits if_splits)

lemma vectors_Some:
  "vectors k as = Some vs \<Longrightarrow> map packed as = map (\<lambda>v. Vector (map PyInt v)) vs"
  by (induction k as arbitrary: vs rule: vectors.induct)
    (auto dest!: pack_all_Some split: option.splits if_splits)

lemma LongTensor_Inr:
  assumes "LongTensor as = Inr t"
  shows "tensor_len t = length as"
    and "i < length as \<Longrightarrow> tensor_row t i = Some (packed (as ! i))"
proof -
  have "tensor_len t = length as \<and> (i < length as \<longrightarrow> tensor_row t i = Some (packed (as ! i)))"
  proof (cases as)
    case Nil
    with assms show ?thesis by auto
  next
    case (Cons a as')
    show ?thesis
    proof (cases a)
      case (Scalar n)
      with Cons assms obtain xs where xs: "scalars as = Some xs" and t: "t = Tensor1 xs"
        by (auto split: option.splits)
      from scalars_Some[OF xs] have eq: "map packed as = map (\<lambda>x. Scalar (PyInt x)) xs" .
      then have len: "length xs = length as" by (metis length_map)
      have "packed (as ! i) = Scalar (PyInt (xs ! i))" if "i < length as"
        using that len nth_map[of i as packed] nth_map[of i xs "\<lambda>x. Scalar (PyInt x)"] eq
        by simp
      with t len show ?thesis by simp
    next
      case (Vector v)
      with Cons assms obtain vs where vs: "vectors (length v) as = Some vs" and t: "t = Tensor2 vs"
        by (auto split: option.splits)
      from vectors_Some[OF vs] have eq: "map packed as = map (\<lambda>v. Vector (map PyInt v)) vs" .
      then have len: "length vs = length as" by (metis length_map)
      have "packed (as ! i) = Vector (map PyInt (vs ! i))" if "i < length as"
        using that len nth_map[of i as packed] nth_map[of i vs "\<lambda>v. Vector (map PyInt v)"] eq
        by simp
      with t len show ?thesis by simp
    qed
  qed
  then show "tensor_len t = length as"
    and "i < length as \<Longrightarrow> tensor_row t i = Some (packed (as ! i))"
    by simp_all
qed



lemma LongTensor_single:
  assumes "fits_long a"
  shows "\<exists>t. LongTensor [a] = Inr t \<and> tensor_len t = 1"
  using assms by (cases a) (auto split: option.splits)

subsection \<open>The node features\<close>

lemma set_ndata_Inr_iff:
  "set_ndata k t g = Inr g' \<longleftrightarrow> tensor_len t = num_nodes g \<and> g' = g\<lparr>ndata := (ndata g)(k \<mapsto> t)\<rparr>"
  by (auto simp: set_ndata_def)


lemma set_node_features_Inr:
  assumes "set_node_features objects g = Inr g'"
  shows "\<exists>cs ls tc tl.
           attrs_of CENTROID objects = Inr cs \<and> LongTensor cs = Inr tc \<and>
           attrs_of LABEL objects = Inr ls \<and> LongTensor ls = Inr tl \<and>
           num_nodes g = length objects \<and>
           g' = g\<lparr>ndata := (ndata g)(CENTROID \<mapsto> tc, LABEL \<mapsto> tl)\<rparr>"
proof -
  from assms obtain cs tc g1 ls tl where
    cs: "attrs_of CENTROID objects = Inr cs" and tc: "LongTensor cs = Inr tc" and
    g1: "set_ndata CENTROID tc g = Inr g1" and
    ls: "attrs_of LABEL objects = Inr ls" and tl: "LongTensor ls = Inr tl" and
    g': "set_ndata LABEL tl g1 = Inr g'"
    unfolding set_node_features_def bind_err_Inr_iff by blast
  have "length cs = length objects"
    using cs by (metis attrs_of_Inr_iff length_map)
  with g1 tc have "num_nodes g = length objects"
    by (simp add: set_ndata_Inr_iff LongTensor_Inr(1))
  moreover from g1 g' have "g' = g\<lparr>ndata := (ndata g)(CENTROID \<mapsto> tc, LABEL \<mapsto> tl)\<rparr>"
    by (simp add: set_ndata_Inr_iff)
  ultimately show ?thesis using cs tc ls tl by blast
qed


lemma set_node_features_small:
  assumes "length objects < 2" and "list_all well_formed objects"
  shows "\<exists>g1. set_node_features objects (add_nodes (length objects) DGLGraph) = Inr g1"
proof (cases objects)
  case Nil
  then show ?thesis
    by (simp add: set_node_features_def add_nodes_def DGLGraph_def set_ndata_def)
next
  case (Cons ob rest)
  with assms(1) have objects: "objects = [ob]" by simp
  with assms(2) obtain c l where
    c: "ob CENTROID = Some c" "fits_long c" and l: "ob LABEL = Some l" "fits_long l"
    by (auto simp: well_formed_def split: option.splits)
  from LongTensor_single[OF c(2)] obtain tc where tc: "LongTensor [c] = Inr tc" "tensor_len tc = 1"
    by blast
  from LongTensor_single[OF l(2)] obtain tl where tl: "LongTensor [l] = Inr tl" "tensor_len tl = 1"
    by blast
  show ?thesis
    by (simp add: objects set_node_features_def lookup_def c l tc tl
        add_nodes_def DGLGraph_def set_ndata_def)
qed

subsection \<open>The topology loop\<close>

lemma set_combinations2: "set (combinations2 n) = {(i, j). i < j \<and> j < n}"
  by (force simp: combinations2_def)

lemma combinations2_small: "n < 2 \<Longrightarrow> combinations2 n = []"
  by (cases n) (auto simp: combinations2_def)

lemma combinations2_Cons:
  assumes "2 \<le> n"
  shows "\<exists>ps. combinations2 n = (0, 1) # ps"
proof -
  from assms have a: "[0..<n] = 0 # [Suc 0..<n]" and b: "[Suc 0..<n] = Suc 0 # [Suc (Suc 0)..<n]"
    by (simp_all add: upt_conv_Cons)
  have "combinations2 n =
          map (Pair 0) [Suc 0..<n] @ concat (map (\<lambda>i. map (Pair i) [Suc i..<n]) [Suc 0..<n])"
    unfolding combinations2_def by (subst a) simp
  also have "map (Pair 0) [Suc 0..<n] = (0, 1) # map (Pair 0) [Suc (Suc 0)..<n]"
    by (subst b) simp
  finally show ?thesis by simp
qed

lemma topology_loop_Inr:
  assumes "topology_loop l2 ew self centroid pairs edge_list = Inr es"
  shows "es = edge_list @ concat (map (\<lambda>p. [p, (snd p, fst p)])
                             (filter (exceeds l2 ew self centroid) pairs))"
  using assms
proof (induction pairs arbitrary: edge_list)
  case Nil
  then show ?case by simp
next
  case (Cons pair pairs)
  from Cons.prems obtain thr where thr: "config self ''edge_threshold'' = Some thr"
    and i0: "fst pair < length centroid" and i1: "snd pair < length centroid"
    by (auto simp: bind_err_Inr_iff py_index_def lookup_Inr_iff Let_def split: if_splits)
  show ?case
  proof (cases "exceeds l2 ew self centroid pair")
    case True
    with Cons.prems thr i0 i1
    have "topology_loop l2 ew self centroid pairs (edge_list @ [pair, (snd pair, fst pair)]) = Inr es"
      by (simp add: py_index_def lookup_def exceeds_def Let_def)
    from Cons.IH[OF this] True show ?thesis by simp
  next
    case False
    with Cons.prems thr i0 i1
    have "topology_loop l2 ew self centroid pairs edge_list = Inr es"
      by (simp add: py_index_def lookup_def exceeds_def Let_def)
    from Cons.IH[OF this] False show ?thesis by simp
  qed
qed

lemma topology_loop_threshold:
  assumes "topology_loop l2 ew self centroid (pair # pairs) edge_list = Inr es"
  shows "config self ''edge_threshold'' \<noteq> None"
  using assms
  by (auto simp: bind_err_Inr_iff lookup_Inr_iff Let_def)

lemma topology_loop_no_threshold:
  assumes "config self ''edge_threshold'' = None"
    and "fst pair < length centroid" "snd pair < length centroid"
  shows "topology_loop l2 ew self centroid (pair # pairs) edge_list = Inl (KeyError ''edge_threshold'')"
  using assms by (simp add: py_index_def lookup_def Let_def)

lemma topology_loop_cong:
  assumes "config self' ''edge_threshold'' = config self ''edge_threshold''"
  shows "topology_loop l2 ew self' centroid pairs edge_list =
         topology_loop l2 ew self centroid pairs edge_list"
  by (induction pairs arbitrary: edge_list) (simp_all add: assms lookup_def cong: if_cong)

lemma in_paired_edges:
  "(a, b) \<in> set (concat (map (\<lambda>p. [p, (snd p, fst p)]) ps)) \<longleftrightarrow> (a, b) \<in> set ps \<or> (b, a) \<in> set ps"
  by (induction ps) auto

subsection \<open>The edge list and the call\<close>

lemma edge_list_Inr:
  assumes "topology_edge_list l2 ew self objects = Inr es"
  shows "\<exists>cs. attrs_of CENTROID objects = Inr cs \<and>
           es = concat (map (\<lambda>p. [p, (snd p, fst p)])
                  (filter (exceeds l2 ew self cs) (combinations2 (length objects))))"
proof -
  from assms obtain cs where cs: "attrs_of CENTROID objects = Inr cs"
    and es: "topology_loop l2 ew self cs (combinations2 (length objects)) [] = Inr es"
    unfolding topology_edge_list_def Let_def bind_err_Inr_iff by blast
  from topology_loop_Inr[OF es] cs show ?thesis by simp
qed

lemma edge_list_iff:
  assumes "topology_edge_list l2 ew self objects = Inr es"
    and "attrs_of CENTROID objects = Inr cs"
  shows "(a, b) \<in> set es \<longleftrightarrow>
           (a < b \<and> b < length objects \<and> exceeds l2 ew self cs (a, b)) \<or>
           (b < a \<and> a < length objects \<and> exceeds l2 ew self cs (b, a))"
proof -
  from edge_list_Inr[OF assms(1)] assms(2)
  have "es = concat (map (\<lambda>p. [p, (snd p, fst p)])
               (filter (exceeds l2 ew self cs) (combinations2 (length objects))))"
    by auto
  then show ?thesis
    by (auto simp: in_paired_edges set_combinations2)
qed

lemma edge_list_threshold:
  assumes "topology_edge_list l2 ew self objects = Inr es" and "2 \<le> length objects"
  shows "config self ''edge_threshold'' \<noteq> None"
proof -
  from assms(1) obtain cs where
    es: "topology_loop l2 ew self cs (combinations2 (length objects)) [] = Inr es"
    unfolding topology_edge_list_def Let_def bind_err_Inr_iff by blast
  from combinations2_Cons[OF assms(2)] obtain ps where
    "combinations2 (length objects) = (0, 1) # ps" by blast
  with es show ?thesis
    using topology_loop_threshold by metis
qed

lemma edge_list_no_threshold:
  assumes "attrs_of CENTROID objects = Inr cs"
    and "config self ''edge_threshold'' = None" and "2 \<le> length objects"
  shows "topology_edge_list l2 ew self objects = Inl (KeyError ''edge_threshold'')"
proof -
  from combinations2_Cons[OF assms(3)] obtain ps where
    ps: "combinations2 (length objects) = (0, 1) # ps" by blast
  from attrs_of_nth(1)[OF assms(1)] assms(3) have "0 < length cs" "1 < length cs"
    by linarith+
  then have "topology_loop l2 ew self cs ((0, 1) # ps) [] = Inl (KeyError ''edge_threshold'')"
    using topology_loop_no_threshold[OF assms(2), of "(0, 1)" cs l2 ew ps "[]"] by simp
  with assms(1) ps show ?thesis
    by (simp add: topology_edge_list_def)
qed

lemma edge_list_small:
  assumes "attrs_of CENTROID objects = Inr cs" and "length objects < 2"
  shows "topology_edge_list l2 ew self objects = Inr []"
  using assms by (simp add: topology_edge_list_def combinations2_small)

lemma edge_list_cong:
  assumes "map (\<lambda>ob. ob CENTROID) objects = map (\<lambda>ob. ob CENTROID) objects'"
    and "config self ''edge_threshold'' = config self' ''edge_threshold''"
  shows "topology_edge_list l2 ew self objects = topology_edge_list l2 ew self' objects'"
proof -
  from assms(1) have "length objects = length objects'"
    by (rule map_eq_imp_length_eq)
  then show ?thesis
    by (simp add: topology_edge_list_def attrs_of_cong[OF assms(1)]
        topology_loop_cong[OF assms(2)])
qed

lemma build_topology_raises:
  "build_topology l2 ew self objects g =
     (case topology_edge_list l2 ew self objects of Inl e \<Rightarrow> Inl e | Inr es \<Rightarrow> Inl TypeError)"
  by (simp add: build_topology_def bind_err_def split: sum.splits)

lemma call_result:
  "fst (KNNGraphBuilder_call l2 ew self objects image_size) =
     bind_err (set_node_features objects (add_nodes (length objects) DGLGraph)) (\<lambda>g1.
       case topology_edge_list l2 ew self objects of Inl e \<Rightarrow> Inl e | Inr es \<Rightarrow> Inl TypeError)"
proof (cases "set_node_features objects (add_nodes (length objects) DGLGraph)")
  case (Inl e)
  then show ?thesis by (simp add: KNNGraphBuilder_call_def)
next
  case (Inr g1)
  then show ?thesis
    by (simp add: KNNGraphBuilder_call_def build_topology_raises split: sum.splits)
qed

lemma call_raises_TypeError:
  assumes "set_node_features objects (add_nodes (length objects) DGLGraph) = Inr g1"
    and "topology_edge_list l2 ew self objects = Inr es"
  shows "fst (KNNGraphBuilder_call l2 ew self objects image_size) = Inl TypeError"
  by (simp add: call_result assms)

subsection \<open>The optimization loop\<close>

lemma epoch_step_Inr:
  "epoch_step forward apply_mask update tp g orig s = Inr s' \<Longrightarrow> iterations s' = Suc (iterations s)"
  by (auto simp: epoch_step_def bind_err_Inr_iff)

lemma optimize_mask_iterations:
  "optimize_mask forward apply_mask update tp g orig k s = Inr s' \<Longrightarrow>
   iterations s' = iterations s + k"
proof (induction k arbitrary: s)
  case 0
  then show ?case by simp
next
  case (Suc k)
  from Suc.prems obtain s1 where
    s1: "epoch_step forward apply_mask update tp g orig s = Inr s1" and
    rest: "optimize_mask forward apply_mask update tp g orig k s1 = Inr s'"
    by (auto simp: bind_err_Inr_iff)
  from Suc.IH[OF rest] epoch_step_Inr[OF s1] show ?case by simp
qed

lemma optimize_mask_total:
  assumes "\<forall>x. \<not> isl (forward x)"
  shows "\<exists>s'. optimize_mask forward apply_mask update tp g orig k s = Inr s'"
proof (induction k arbitrary: s)
  case 0
  show ?case by simp
next
  case (Suc k)
  from assms obtain p where "forward (apply_mask (mask s) g) = Inr p"
    by (metis isl_def sum.exhaust_sel sum.collapse(2))
  then obtain s1 where "epoch_step forward apply_mask update tp g orig s = Inr s1"
    by (simp add: epoch_step_def)
  with Suc.IH[of s1] show ?case by simp
qed


subsection \<open>Selection by a boolean mask\<close>

lemma upt_0_Suc_shift: "[0..<Suc n] = 0 # map Suc [0..<n]"
  by (simp add: upt_conv_Cons map_Suc_upt del: upt_Suc)

lemma select_eq:
  "length m = length xs \<Longrightarrow> select m xs = map ((!) xs) (filter ((!) m) [0..<length xs])"
proof (induction m xs rule: list_induct2)
  case Nil
  show ?case by simp
next
  case (Cons b bs x xs)
  have "filter ((!) (b # bs)) [0..<length (x # xs)] =
          (if b then [0] else []) @ map Suc (filter ((!) bs) [0..<length xs])"
    by (simp add: upt_0_Suc_shift filter_map comp_def del: upt_Suc)
  then show ?case
    by (simp add: Cons.IH comp_def del: upt_Suc)
qed

lemma select_nonzero_sum:
  assumes "length xs = length feats"
  shows "select (nonzero_sum fsum feats) xs = map ((!) xs) (kept fsum feats)"
proof -
  have "filter ((!) (nonzero_sum fsum feats)) [0..<length feats] = kept fsum feats"
    unfolding kept_def nonzero_sum_def
    by (rule filter_cong) auto
  with assms select_eq[of "nonzero_sum fsum feats" xs] show ?thesis
    by (simp add: nonzero_sum_def)
qed

lemma mask_rows_nonzero_sum:
  assumes "length xs = length feats"
  shows "mask_rows (nonzero_sum fsum feats) xs = Inr (map ((!) xs) (kept fsum feats))"
  using assms by (simp add: mask_rows_def select_nonzero_sum) (simp add: nonzero_sum_def)

lemma mask_cols_nonzero_sum:
  assumes "\<forall>row \<in> set rows. length row = length feats"
  shows "mask_cols (nonzero_sum fsum feats) rows =
           Inr (map (\<lambda>row. map ((!) row) (kept fsum feats)) rows)"
  using assms by (induction rows) (simp_all add: mask_rows_nonzero_sum)

lemma kept_in_range:
  "i \<in> set (kept fsum feats) \<Longrightarrow> i < length feats \<and> fsum (feats ! i) \<noteq> 0"
  by (simp add: kept_def)

lemma adj_to_networkx_kept:
  fixes feats :: "('a::zero) list list" and adj :: "('w::ord) list list"
  assumes "length adj = length feats"
    and zeros: "\<forall>row. list_all (\<lambda>x. x = 0) row \<longrightarrow> fsum row = 0"
  shows "adj_to_networkx
           (map (\<lambda>row. map ((!) row) (kept fsum feats)) (map ((!) adj) (kept fsum feats)))
           (map ((!) feats) (kept fsum feats)) threshold cs =
         \<lparr>nx_nodes = [0..<length (kept fsum feats)],
          nx_edges = filter (\<lambda>(p, q). threshold < adj ! (kept fsum feats ! p) ! (kept fsum feats ! q))
                       (List.product [0..<length (kept fsum feats)] [0..<length (kept fsum feats)])\<rparr>"
proof -
  let ?k = "kept fsum feats"
  have nodes: "filter (\<lambda>i. list_ex (\<lambda>x. x \<noteq> 0) (map ((!) feats) ?k ! i)) [0..<length ?k] =
          [0..<length ?k]"
  proof -
    have "list_ex (\<lambda>x. x \<noteq> 0) (map ((!) feats) ?k ! i)" if "i < length ?k" for i
    proof -
      from that have "?k ! i \<in> set ?k" by simp
      then have "fsum (feats ! (?k ! i)) \<noteq> 0" by (simp add: kept_in_range)
      with zeros have "\<not> list_all (\<lambda>x. x = 0) (feats ! (?k ! i))" by blast
      with that show ?thesis by (simp add: list_all_iff list_ex_iff)
    qed
    then show ?thesis by (simp add: filter_id_conv)
  qed
  have edges: "filter (\<lambda>(i, j). j < length (map (\<lambda>row. map ((!) row) ?k) (map ((!) adj) ?k) ! i) \<and>
                  threshold < map (\<lambda>row. map ((!) row) ?k) (map ((!) adj) ?k) ! i ! j)
                 (List.product [0..<length ?k] [0..<length ?k]) =
               filter (\<lambda>(p, q). threshold < adj ! (?k ! p) ! (?k ! q))
                 (List.product [0..<length ?k] [0..<length ?k])"
    by (rule filter_cong) auto
  show ?thesis
    unfolding adj_to_networkx_def using nodes edges by simp
qed

subsection \<open>The sample inputs, evaluated\<close>

lemma combinations2_5: "combinations2 5 =
  [(0,1),(0,2),(0,3),(0,4),(1,2),(1,3),(1,4),(2,3),(2,4),(3,4)]"
  by code_simp

lemma line_length: "length line_objects = 5"
  by (simp add: line_objects_def)

lemma line_centroids:
  "attrs_of CENTROID line_objects =
     Inr [Vector [PyInt 0, PyInt 0], Vector [PyInt 1, PyInt 0], Vector [PyInt 2, PyInt 0],
          Vector [PyInt 3, PyInt 0], Vector [PyInt 4, PyInt 0]]"
  by (simp add: line_objects_def line_object_def lookup_def CENTROID_def LABEL_def)

lemma line_labels:
  "attrs_of LABEL line_objects =
     Inr [Scalar (PyInt 7), Scalar (PyInt 8), Scalar (PyInt 9), Scalar (PyInt 10),
          Scalar (PyInt 11)]"
  by (simp add: line_objects_def line_object_def lookup_def CENTROID_def LABEL_def)

lemma line_features:
  "set_node_features line_objects (add_nodes (length line_objects) DGLGraph) = Inr line_nodes"
  by (simp add: set_node_features_def line_length line_centroids line_labels line_nodes_def
      add_nodes_def DGLGraph_def set_ndata_def pack_def in_long_def)

lemma line_topology:
  "topology_loop sq_l2 neg_weight line_builder
     [Vector [PyInt 0, PyInt 0], Vector [PyInt 1, PyInt 0], Vector [PyInt 2, PyInt 0],
      Vector [PyInt 3, PyInt 0], Vector [PyInt 4, PyInt 0]]
     (combinations2 5) [] = Inr line_edges"
  by (simp add: combinations2_5 line_builder_def KNNGraphBuilder_init_def lookup_def
      py_index_def neg_weight_def line_edges_def)

lemma line_edge_list:
  "topology_edge_list sq_l2 neg_weight line_builder line_objects = Inr line_edges"
  by (simp add: topology_edge_list_def line_length line_centroids line_topology)

lemma line_plain_centroids:
  "map (\<lambda>ob. ob CENTROID) line_objects = map (\<lambda>ob. ob CENTROID) plain_objects"
  by (simp add: line_objects_def plain_objects_def line_object_def plain_object_def
      CENTROID_def LABEL_def)

lemma whole_sum_zeros: "\<forall>row. list_all (\<lambda>x. x = 0) row \<longrightarrow> whole_sum row = 0"
proof (intro allI impI)
  fix row :: "real list"
  assume "list_all (\<lambda>x. x = 0) row"
  then show "whole_sum row = 0"
    unfolding whole_sum_def by (induction row) simp_all
qed

lemma chain_kept: "kept whole_sum chain_feats = [0, 1, 2]"
  by (simp add: kept_def whole_sum_def chain_feats_def upt_conv_Cons)

lemma product_3: "List.product [0..<3] [0..<3] =
   [(0,0),(0,1),(0,2),(1,0),(1,1),(1,2),(2,0),(2,1),(2,2)]"
  by code_simp

section \<open>The graph builder\<close>




text \<open>
  C2. The edge list that \<open>_build_topology\<close> builds is symmetric, \<open>(i, j)\<close> is in it
  iff \<open>(j, i)\<close> is, and holds no self-loop. It never becomes the edge set of a returned
  graph: whenever the node features are set and the loop is done, line 77 calls
  \<open>graph.add_edges(edge_list)\<close> with one argument and the call raises \<open>TypeError\<close>.
\<close>

theorem edge_list_symmetric_call_raises:
  assumes "set_node_features objects (add_nodes (length objects) DGLGraph) = Inr g1"
    and "topology_edge_list l2 ew self objects = Inr es"
  shows "((i, j) \<in> set es \<longleftrightarrow> (j, i) \<in> set es) \<and> (i, i) \<notin> set es \<and>
         fst (KNNGraphBuilder_call l2 ew self objects image_size) = Inl TypeError"
proof -
  from edge_list_Inr[OF assms(2)] obtain cs where cs: "attrs_of CENTROID objects = Inr cs"
    by auto
  have "((i, j) \<in> set es \<longleftrightarrow> (j, i) \<in> set es) \<and> (i, i) \<notin> set es"
    unfolding edge_list_iff[OF assms(2) cs] by auto
  with call_raises_TypeError[OF assms] show ?thesis by simp
qed

theorem edge_list_symmetric_call_raises_witness:
  "topology_edge_list sq_l2 neg_weight line_builder line_objects = Inr line_edges \<and>
   (1, 2) \<in> set line_edges \<and> (2, 1) \<in> set line_edges \<and>
   (0, 2) \<notin> set line_edges \<and> (2, 0) \<notin> set line_edges \<and> (2, 2) \<notin> set line_edges \<and>
   fst (KNNGraphBuilder_call sq_l2 neg_weight line_builder line_objects [5, 1]) = Inl TypeError"
proof -
  have a: "(1, 2) \<in> set line_edges" and b: "(0, 2) \<notin> set line_edges"
    by (simp_all add: line_edges_def)
  from edge_list_symmetric_call_raises[OF line_features line_edge_list, of 1 2 "[5, 1]"] a
  have "(2, 1) \<in> set line_edges"
    and r: "fst (KNNGraphBuilder_call sq_l2 neg_weight line_builder line_objects [5, 1]) =
      Inl TypeError"
    by blast+
  moreover from edge_list_symmetric_call_raises[OF line_features line_edge_list, of 0 2 "[5, 1]"] b
  have "(2, 0) \<notin> set line_edges" by blast
  moreover from edge_list_symmetric_call_raises[OF line_features line_edge_list, of 2 2 "[5, 1]"]
  have "(2, 2) \<notin> set line_edges" by blast
  ultimately show ?thesis using a b line_edge_list by blast
qed

text \<open>
  C3. For two distinct nodes, written with the smaller index \<open>i\<close> first as the loop
  visits them, the edge list that \<open>_build_topology\<close> builds holds \<open>(i, j)\<close> and
  \<open>(j, i)\<close> iff \<open>compute_edge_weight(compute_l2_distance(centroid_i, centroid_j))\<close>
  is greater than \<open>config['edge_threshold']\<close>; the two directions come and go together.
  The graph never gets these edges: the call of line 77 raises \<open>TypeError\<close>.
\<close>

theorem edge_list_by_weight_call_raises:
  assumes "set_node_features objects (add_nodes (length objects) DGLGraph) = Inr g1"
    and "topology_edge_list l2 ew self objects = Inr es"
    and "i < j" and "j < length objects"
  shows "\<exists>ci cj thr.
           (objects ! i) CENTROID = Some ci \<and> (objects ! j) CENTROID = Some cj \<and>
           config self ''edge_threshold'' = Some thr \<and>
           ((i, j) \<in> set es \<and> (j, i) \<in> set es \<longleftrightarrow> num_of thr < ew (l2 ci cj)) \<and>
           ((i, j) \<in> set es \<or> (j, i) \<in> set es \<longleftrightarrow> num_of thr < ew (l2 ci cj)) \<and>
           fst (KNNGraphBuilder_call l2 ew self objects image_size) = Inl TypeError"
proof -
  from edge_list_Inr[OF assms(2)] obtain cs where cs: "attrs_of CENTROID objects = Inr cs"
    by auto
  from assms(3,4) have "2 \<le> length objects" by simp
  from edge_list_threshold[OF assms(2) this] obtain thr where
    thr: "config self ''edge_threshold'' = Some thr" by auto
  from assms(3,4) attrs_of_nth[OF cs] have
    ci: "(objects ! i) CENTROID = Some (cs ! i)" and cj: "(objects ! j) CENTROID = Some (cs ! j)"
    by simp_all
  have ex: "exceeds l2 ew self cs (i, j) \<longleftrightarrow> num_of thr < ew (l2 (cs ! i) (cs ! j))"
    by (simp add: exceeds_def thr)
  from assms(3,4) have
    "(i, j) \<in> set es \<longleftrightarrow> exceeds l2 ew self cs (i, j)"
    "(j, i) \<in> set es \<longleftrightarrow> exceeds l2 ew self cs (i, j)"
    unfolding edge_list_iff[OF assms(2) cs] by auto
  with ex ci cj thr call_raises_TypeError[OF assms(1,2), of image_size] show ?thesis by auto
qed

theorem edge_list_by_weight_call_raises_witness:
  "(line_objects ! 1) CENTROID = Some (Vector [PyInt 1, PyInt 0]) \<and>
   (line_objects ! 2) CENTROID = Some (Vector [PyInt 2, PyInt 0]) \<and>
   config line_builder ''edge_threshold'' = Some (CNum (- 2)) \<and>
   num_of (CNum (- 2)) < neg_weight (sq_l2 (Vector [PyInt 1, PyInt 0]) (Vector [PyInt 2, PyInt 0])) \<and>
   (1, 2) \<in> set line_edges \<and> (2, 1) \<in> set line_edges \<and>
   fst (KNNGraphBuilder_call sq_l2 neg_weight line_builder line_objects [5, 1]) = Inl TypeError"
proof -
  have c: "(line_objects ! 1) CENTROID = Some (Vector [PyInt 1, PyInt 0])"
    "(line_objects ! 2) CENTROID = Some (Vector [PyInt 2, PyInt 0])"
    "config line_builder ''edge_threshold'' = Some (CNum (- 2))"
    by (simp_all add: line_objects_def line_object_def line_builder_def KNNGraphBuilder_init_def
        CENTROID_def LABEL_def)
  have w: "num_of (CNum (- 2)) <
      neg_weight (sq_l2 (Vector [PyInt 1, PyInt 0]) (Vector [PyInt 2, PyInt 0]))"
    by (simp add: neg_weight_def)
  have "(1::nat) < 2" "2 < length line_objects"
    by (simp_all add: line_length)
  from edge_list_by_weight_call_raises[OF line_features line_edge_list this, of "[5, 1]"] c w
  have "(1, 2) \<in> set line_edges \<and> (2, 1) \<in> set line_edges"
    and "fst (KNNGraphBuilder_call sq_l2 neg_weight line_builder line_objects [5, 1]) =
      Inl TypeError"
    by auto
  with c w show ?thesis by blast
qed

text \<open>
  C4, as stated: without \<open>edge_threshold\<close> in the configuration the build fails with
  \<open>ConfigurationError\<close>. For the five objects it fails with the \<open>KeyError\<close> of the
  dict lookup in line 74.
\<close>

theorem missing_threshold_key_error:
  "config no_threshold_builder ''edge_threshold'' = None \<and>
   fst (KNNGraphBuilder_call sq_l2 neg_weight no_threshold_builder line_objects [5, 1]) =
     Inl (KeyError ''edge_threshold'') \<and>
   fst (KNNGraphBuilder_call sq_l2 neg_weight no_threshold_builder line_objects [5, 1]) \<noteq>
     Inl ConfigurationError"
proof -
  have a: "config no_threshold_builder ''edge_threshold'' = None"
    by (simp add: no_threshold_builder_def KNNGraphBuilder_init_def)
  have "2 \<le> length line_objects" by (simp add: line_length)
  from edge_list_no_threshold[OF line_centroids a this, of sq_l2 neg_weight]
  have "fst (KNNGraphBuilder_call sq_l2 neg_weight no_threshold_builder line_objects [5, 1]) =
     Inl (KeyError ''edge_threshold'')"
    by (simp add: call_result line_features)
  with a show ?thesis by simp
qed

text \<open>
  C4, amended. If \<open>edge_threshold\<close> is missing from the configuration and there are at
  least two objects, the build fails: with the error of the node feature step when that
  step fails, else with the \<open>KeyError\<close> for \<open>edge_threshold\<close>.
\<close>

theorem call_fails_on_missing_threshold:
  assumes "config self ''edge_threshold'' = None" and "2 \<le> length objects"
  shows "case set_node_features objects (add_nodes (length objects) DGLGraph) of
           Inl e \<Rightarrow> fst (KNNGraphBuilder_call l2 ew self objects image_size) = Inl e
         | Inr g1 \<Rightarrow> fst (KNNGraphBuilder_call l2 ew self objects image_size) =
                      Inl (KeyError ''edge_threshold'')"
proof (cases "set_node_features objects (add_nodes (length objects) DGLGraph)")
  case (Inl e)
  then show ?thesis by (simp add: call_result)
next
  case (Inr g1)
  from set_node_features_Inr[OF Inr] obtain cs where
    cs: "attrs_of CENTROID objects = Inr cs" by auto
  from edge_list_no_threshold[OF cs assms, of l2 ew] Inr show ?thesis
    by (simp add: call_result)
qed

theorem call_fails_on_missing_threshold_witness:
  "config no_threshold_builder ''edge_threshold'' = None \<and>
   2 \<le> length [line_object 1, line_object 3] \<and>
   fst (KNNGraphBuilder_call sq_l2 neg_weight no_threshold_builder
          [line_object 1, line_object 3] [5, 1]) = Inl (KeyError ''edge_threshold'')"
proof -
  have a: "config no_threshold_builder ''edge_threshold'' = None"
    and b: "2 \<le> length [line_object 1, line_object 3]"
    by (simp_all add: no_threshold_builder_def KNNGraphBuilder_init_def)
  have "set_node_features [line_object 1, line_object 3]
          (add_nodes (length [line_object 1, line_object 3]) DGLGraph) =
        Inr \<lparr>num_nodes = 2,
             ndata = [CENTROID \<mapsto> Tensor2 [[1, 0], [3, 0]], LABEL \<mapsto> Tensor1 [8, 10]],
             edges = []\<rparr>"
    by (simp add: set_node_features_def line_object_def lookup_def add_nodes_def DGLGraph_def
        set_ndata_def pack_def in_long_def CENTROID_def LABEL_def)
  with call_fails_on_missing_threshold[OF a b, of sq_l2 neg_weight "[5, 1]"] a b
  show ?thesis by simp
qed

text \<open>
  C5. For fewer than two objects, each carrying a centroid and a label that fit a
  tensor, the call does not return a graph: the node features are set, the loop over the
  pairs is empty, and \<open>graph.add_edges(edge_list)\<close> in line 77 raises \<open>TypeError\<close>
  for its missing second argument, whatever the configuration is.
\<close>

theorem call_small_input_raises:
  assumes "length objects < 2" and "list_all well_formed objects"
  shows "(\<exists>g1. set_node_features objects (add_nodes (length objects) DGLGraph) = Inr g1) \<and>
         topology_edge_list l2 ew self objects = Inr [] \<and>
         fst (KNNGraphBuilder_call l2 ew self objects image_size) = Inl TypeError"
proof -
  from set_node_features_small[OF assms] obtain g1 where
    g1: "set_node_features objects (add_nodes (length objects) DGLGraph) = Inr g1" by blast
  from set_node_features_Inr[OF g1] obtain cs where
    cs: "attrs_of CENTROID objects = Inr cs" by auto
  have es: "topology_edge_list l2 ew self objects = Inr []"
    by (rule edge_list_small[OF cs assms(1)])
  from g1 es call_raises_TypeError[OF g1 es] show ?thesis by blast
qed

theorem call_small_input_raises_witness:
  "length [line_object 4] < 2 \<and> list_all well_formed [line_object 4] \<and>
   fst (KNNGraphBuilder_call sq_l2 neg_weight line_builder [line_object 4] [5, 1]) =
     Inl TypeError \<and>
   fst (KNNGraphBuilder_call sq_l2 neg_weight line_builder [] [5, 1]) = Inl TypeError"
proof -
  have h: "length [line_object 4] < 2" "list_all well_formed [line_object 4]"
    by (simp_all add: well_formed_def line_object_def pack_def in_long_def CENTROID_def LABEL_def)
  have e: "length ([] :: obj list) < 2" "list_all well_formed []"
    by simp_all
  from call_small_input_raises[OF h, of sq_l2 neg_weight line_builder "[5, 1]"]
    call_small_input_raises[OF e, of sq_l2 neg_weight line_builder "[5, 1]"] h
  show ?thesis by blast
qed

text \<open>
  C10. The image size does not enter the result of a call: two calls that differ in the
  image size only end the same way. The edge list that \<open>_build_topology\<close> builds is
  fixed by the centroids of the objects and the configured threshold: two builds that
  agree on these build the same list, or raise the same error, whatever the labels, the
  other configuration entries and the image sizes are.
\<close>

theorem call_ignores_image_size:
  "KNNGraphBuilder_call l2 ew self objects image_size =
   KNNGraphBuilder_call l2 ew self objects image_size' \<and>
   (map (\<lambda>ob. ob CENTROID) objects = map (\<lambda>ob. ob CENTROID) objects' \<and>
    config self ''edge_threshold'' = config self' ''edge_threshold''
    \<longrightarrow> topology_edge_list l2 ew self objects = topology_edge_list l2 ew self' objects')"
  using edge_list_cong[of objects objects' self self' l2 ew]
  by (simp add: KNNGraphBuilder_call_def)

theorem call_ignores_image_size_witness:
  "KNNGraphBuilder_call sq_l2 neg_weight line_builder line_objects [5, 1] =
     (Inl TypeError, line_builder) \<and>
   KNNGraphBuilder_call sq_l2 neg_weight line_builder line_objects [9, 9] =
     (Inl TypeError, line_builder) \<and>
   map (\<lambda>ob. ob CENTROID) line_objects = map (\<lambda>ob. ob CENTROID) plain_objects \<and>
   config line_builder ''edge_threshold'' = config encoding_builder ''edge_threshold'' \<and>
   line_builder \<noteq> encoding_builder \<and>
   topology_edge_list sq_l2 neg_weight line_builder line_objects = Inr line_edges \<and>
   topology_edge_list sq_l2 neg_weight encoding_builder plain_objects = Inr line_edges"
proof -
  have t: "config line_builder ''edge_threshold'' = config encoding_builder ''edge_threshold''"
    and d: "line_builder \<noteq> encoding_builder"
    by (simp_all add: line_builder_def encoding_builder_def KNNGraphBuilder_init_def)
  have r: "fst (KNNGraphBuilder_call sq_l2 neg_weight line_builder line_objects [5, 1]) =
      Inl TypeError"
    by (rule call_raises_TypeError[OF line_features line_edge_list])
  have s: "snd (KNNGraphBuilder_call sq_l2 neg_weight line_builder line_objects [5, 1]) =
      line_builder"
    by (simp add: KNNGraphBuilder_call_def)
  from r s have c: "KNNGraphBuilder_call sq_l2 neg_weight line_builder line_objects [5, 1] =
     (Inl TypeError, line_builder)"
    by (metis prod.collapse)
  from call_ignores_image_size[of sq_l2 neg_weight line_builder line_objects "[5, 1]" "[9, 9]"
      plain_objects encoding_builder] c line_plain_centroids t d line_edge_list
  show ?thesis by simp
qed

section \<open>The explainer\<close>

text \<open>
  C7. With \<open>num_epochs \<le> 0\<close> the explanation fails with \<open>InvalidConfigError\<close>.
  With \<open>num_epochs \<ge> 1\<close> every explanation that returns has run the loop body
  exactly \<open>num_epochs\<close> times, and it does return when no forward pass raises.
\<close>

theorem explain_runs_num_epochs:
  "(num_epochs tp \<le> 0 \<longrightarrow>
      explain forward apply_mask update mask_init tp g = Inl InvalidConfigError) \<and>
   (1 \<le> num_epochs tp \<longrightarrow>
      (\<forall>r. explain forward apply_mask update mask_init tp g = Inr r \<longrightarrow>
           int (epochs_run r) = num_epochs tp) \<and>
      ((\<forall>x. \<not> isl (forward x)) \<longrightarrow>
         (\<exists>r. explain forward apply_mask update mask_init tp g = Inr r \<and>
              int (epochs_run r) = num_epochs tp)))"
proof -
  have a: "explain forward apply_mask update mask_init tp g = Inl InvalidConfigError"
    if "num_epochs tp \<le> 0"
    using that by (simp add: explain_def)
  have b: "int (epochs_run r) = num_epochs tp"
    if pos: "1 \<le> num_epochs tp" and r: "explain forward apply_mask update mask_init tp g = Inr r"
    for r
  proof -
    from pos r obtain orig s where
      s: "optimize_mask forward apply_mask update tp g orig (nat (num_epochs tp))
            \<lparr>mask = mask_init, iterations = 0\<rparr> = Inr s"
      and "epochs_run r = iterations s"
      by (auto simp: explain_def bind_err_Inr_iff)
    with optimize_mask_iterations[OF s] pos show ?thesis by simp
  qed
  have c: "\<exists>r. explain forward apply_mask update mask_init tp g = Inr r \<and>
              int (epochs_run r) = num_epochs tp"
    if pos: "1 \<le> num_epochs tp" and tot: "\<forall>x. \<not> isl (forward x)"
  proof -
    from tot have ex: "\<exists>p. forward x = Inr p" for x
      by (metis isl_def sum.exhaust_sel sum.collapse(2))
    from ex obtain orig where orig: "forward g = Inr orig" by blast
    from optimize_mask_total[OF tot] obtain s where
      s: "optimize_mask forward apply_mask update tp g orig (nat (num_epochs tp))
            \<lparr>mask = mask_init, iterations = 0\<rparr> = Inr s" by blast
    from ex obtain expl where expl: "forward (apply_mask (mask s) g) = Inr expl" by blast
    from pos orig s expl have "\<exists>r. explain forward apply_mask update mask_init tp g = Inr r"
      by (simp add: explain_def)
    with b[OF pos] show ?thesis by blast
  qed
  from a b c show ?thesis by blast
qed

theorem explain_runs_num_epochs_witness:
  "num_epochs (make_train_params 0 (1 / 10)) \<le> 0 \<and>
   explain toy_forward toy_apply_mask toy_update [1, 1] (make_train_params 0 (1 / 10)) [2, 3] =
     Inl InvalidConfigError \<and>
   1 \<le> num_epochs (make_train_params 3 (1 / 10)) \<and>
   (\<exists>r. explain toy_forward toy_apply_mask toy_update [1, 1] (make_train_params 3 (1 / 10)) [2, 3] =
          Inr r \<and> epochs_run r = 3)"
proof -
  have z: "num_epochs (make_train_params 0 (1 / 10)) \<le> 0"
    and p: "1 \<le> num_epochs (make_train_params 3 (1 / 10))"
    and n: "num_epochs (make_train_params 3 (1 / 10)) = 3"
    by (simp_all add: make_train_params_def)
  have tot: "\<forall>x. \<not> isl (toy_forward x)"
    by (simp add: toy_forward_def)
  from explain_runs_num_epochs[of "make_train_params 0 (1 / 10)" toy_forward toy_apply_mask
      toy_update "[1, 1]" "[2, 3]"] z
  have a: "explain toy_forward toy_apply_mask toy_update [1, 1] (make_train_params 0 (1 / 10)) [2, 3] =
     Inl InvalidConfigError" by blast
  from explain_runs_num_epochs[of "make_train_params 3 (1 / 10)" toy_forward toy_apply_mask
      toy_update "[1, 1]" "[2, 3]"] p tot n
  have "\<exists>r. explain toy_forward toy_apply_mask toy_update [1, 1] (make_train_params 3 (1 / 10)) [2, 3] =
          Inr r \<and> int (epochs_run r) = 3" by simp
  then have b: "\<exists>r. explain toy_forward toy_apply_mask toy_update [1, 1] (make_train_params 3 (1 / 10)) [2, 3] =
          Inr r \<and> epochs_run r = 3" by auto
  from z a p b show ?thesis by blast
qed

text \<open>
  C8, as stated: the explanation keeps the nodes whose feature row is nonzero and the
  edges whose mask weight exceeds the threshold. Here the first node has the row
  \<open>[1, -1]\<close>, which is not zero but sums to zero: the node is dropped, and with it
  the edges of weight 0.9 that touch it.
\<close>

theorem postprocess_drops_cancelling_row:
  "postprocess whole_sum cancel_adj cancel_feats cancel_centroids (1 / 2) =
     Inr \<lparr>nx_nodes = [0], nx_edges = []\<rparr> \<and>
   spec_nodes cancel_feats = [0, 1] \<and>
   spec_edges cancel_adj (1 / 2) = [(0, 1), (1, 0)]"
  by (simp add: postprocess_def nonzero_sum_def whole_sum_def mask_rows_def adj_to_networkx_def
      spec_nodes_def spec_edges_def cancel_adj_def cancel_feats_def cancel_centroids_def
      upt_conv_Cons)

text \<open>
  C8, amended. For an \<open>n \<times> n\<close> mask, \<open>n\<close> feature rows and \<open>n\<close> centroids,
  \<open>n\<close> other than one, postprocessing keeps exactly the nodes whose feature row has a
  nonzero sum, as torch computes the sum, numbered anew in their order, and exactly the
  edges between two kept nodes whose mask weight exceeds the threshold. Of the sum it is
  used that a row of zeros sums to zero. In the spec's example all three nodes are
  kept, edge \<open>(0, 1)\<close> stays and edge \<open>(1, 2)\<close> goes.
\<close>

theorem postprocess_keeps:
  fixes feats :: "('a::zero) list list" and adj :: "('w::ord) list list"
  assumes "length adj = length feats" and "\<forall>row \<in> set adj. length row = length feats"
    and "length centroids = length feats" and "length feats \<noteq> 1"
    and "\<forall>row. list_all (\<lambda>x. x = 0) row \<longrightarrow> fsum row = 0"
  shows "postprocess fsum adj feats centroids threshold =
         Inr \<lparr>nx_nodes = [0..<length (kept fsum feats)],
              nx_edges = filter
                (\<lambda>(p, q). threshold < adj ! (kept fsum feats ! p) ! (kept fsum feats ! q))
                (List.product [0..<length (kept fsum feats)] [0..<length (kept fsum feats)])\<rparr>"
proof -
  have rows: "mask_rows (nonzero_sum fsum feats) adj = Inr (map ((!) adj) (kept fsum feats))"
    by (rule mask_rows_nonzero_sum[OF assms(1)])
  have "\<forall>row \<in> set (map ((!) adj) (kept fsum feats)). length row = length feats"
    using assms(1,2) by (auto dest!: kept_in_range)
  then have cols: "mask_cols (nonzero_sum fsum feats) (map ((!) adj) (kept fsum feats)) =
      Inr (map (\<lambda>row. map ((!) row) (kept fsum feats)) (map ((!) adj) (kept fsum feats)))"
    by (rule mask_cols_nonzero_sum)
  have fs: "mask_rows (nonzero_sum fsum feats) feats = Inr (map ((!) feats) (kept fsum feats))"
    by (rule mask_rows_nonzero_sum) simp
  have cs: "mask_rows (nonzero_sum fsum feats) centroids =
      Inr (map ((!) centroids) (kept fsum feats))"
    by (rule mask_rows_nonzero_sum[OF assms(3)])
  show ?thesis
    unfolding postprocess_def Let_def rows cols fs cs bind_err_simps
    by (simp only: adj_to_networkx_kept[OF assms(1) assms(5)])
qed

theorem postprocess_keeps_witness:
  "length chain_adj = length chain_feats \<and> length chain_centroids = length chain_feats \<and>
   list_all (\<lambda>row. length row = length chain_feats) chain_adj \<and> length chain_feats \<noteq> 1 \<and>
   whole_sum [0, 0, 0] = 0 \<and>
   postprocess whole_sum chain_adj chain_feats chain_centroids (1 / 2) =
     Inr \<lparr>nx_nodes = [0, 1, 2], nx_edges = [(0, 1)]\<rparr>"
proof -
  have h: "length chain_adj = length chain_feats"
    "\<forall>row \<in> set chain_adj. length row = length chain_feats"
    "length chain_centroids = length chain_feats" "length chain_feats \<noteq> 1"
    by (simp_all add: chain_adj_def chain_feats_def chain_centroids_def)
  have z: "whole_sum [0, 0, 0] = 0" by (simp add: whole_sum_def)
  have n: "[0..<length (kept whole_sum chain_feats)] = [0, 1, 2]"
    by (simp add: chain_kept upt_conv_Cons)
  have e: "filter (\<lambda>(p, q). 1 / 2 < chain_adj ! (kept whole_sum chain_feats ! p) !
                                       (kept whole_sum chain_feats ! q))
             (List.product [0..<length (kept whole_sum chain_feats)]
                [0..<length (kept whole_sum chain_feats)]) =
           [(0, 1)]"
    by (simp add: chain_kept product_3 chain_adj_def)
  from postprocess_keeps[OF h whole_sum_zeros, of "1 / 2"] n e h z show ?thesis
    by (simp add: list_all_iff)
qed

text \<open>
  C9. The metadata has the entries \<open>config\<close> and \<open>output\<close>; \<open>output\<close> has
  \<open>original\<close> with \<open>prediction\<close>, \<open>number_of_nodes\<close>, \<open>number_of_edges\<close> and
  \<open>explanation\<close> with \<open>number_of_nodes\<close>, \<open>number_of_edges\<close>,
  \<open>explanation_prediction\<close>. The two prediction vectors are sequences of numbers; the
  document holds each as the string \<open>str(list(np.around(p, 2)))\<close>. \<open>config\<close> is the
  explainer's configuration with \<open>number_of_epochs\<close> and \<open>learning_rate\<close> set.
\<close>

theorem meta_data_schema:
  "\<exists>cfg. make_meta_data render explainer_config epochs learning_rate orig_pred exp_pred
            cell_nodes cell_edges expl_nodes expl_edges =
     [(''config'', JObj cfg),
      (''output'', JObj
         [(''original'', JObj
             [(''prediction'', JStr (render orig_pred)),
              (''number_of_nodes'', JInt (int cell_nodes)),
              (''number_of_edges'', JInt (int cell_edges))]),
          (''explanation'', JObj
             [(''number_of_nodes'', JInt (int expl_nodes)),
              (''number_of_edges'', JInt (int expl_edges)),
              (''explanation_prediction'', JStr (render exp_pred))])])] \<and>
     set (map fst cfg) = set (map fst explainer_config) \<union> {''number_of_epochs'', ''learning_rate''} \<and>
     map_of cfg ''number_of_epochs'' = Some (JInt epochs) \<and>
     map_of cfg ''learning_rate'' = Some (JNum learning_rate) \<and>
     (\<forall>k. k \<noteq> ''number_of_epochs'' \<and> k \<noteq> ''learning_rate'' \<longrightarrow> map_of cfg k = map_of explainer_config k)"
  by (auto simp: make_meta_data_def Let_def AList.update_conv' AList.dom_update)

theorem meta_data_schema_witness:
  "make_meta_data (\<lambda>p. ''[0.9, 0.1]'') sample_config 10 (1 / 100) [9 / 10, 1 / 10] [4 / 5, 1 / 5]
     5 8 3 2 =
   [(''config'', JObj [(''adj_thresh'', JNum (1 / 2)), (''number_of_epochs'', JInt 10),
                       (''learning_rate'', JNum (1 / 100))]),
    (''output'', JObj
       [(''original'', JObj
           [(''prediction'', JStr ''[0.9, 0.1]''),
            (''number_of_nodes'', JInt 5),
            (''number_of_edges'', JInt 8)]),
        (''explanation'', JObj
           [(''number_of_nodes'', JInt 3),
            (''number_of_edges'', JInt 2),
            (''explanation_prediction'', JStr ''[0.9, 0.1]'')])])]"
  using meta_data_schema[of "\<lambda>p. ''[0.9, 0.1]''" sample_config 10 "1 / 100"
      "[9 / 10, 1 / 10]" "[4 / 5, 1 / 5]" 5 8 3 2]
  by (simp add: make_meta_data_def sample_config_def)

end
